theory Spec2Isabelle
  imports Main "HOL-Library.Char_ord" "HOL-Library.List_Lexorder"
begin

section \<open>PointNavDatasetV1: the point-navigation dataset loader\<close>

text \<open>
  A shallow embedding of \<^verbatim>\<open>habitat/datasets/pointnav/pointnav_dataset.py\<close>.
  Python exceptions are values of the type \<open>error\<close>; a method that mutates \<open>self\<close>
  returns the updated object, also when it raises, since the fields assigned before the
  \<^verbatim>\<open>raise\<close> stay assigned. The operating system and the standard library are
  an explicit environment (\<open>env\<close>), and every call that touches the file system or
  decodes a document is recorded in a log of events, so that statements such as
  "no file is read" are statements about the log.
\<close>

subsection \<open>Values and errors\<close>

text \<open>
  What \<^verbatim>\<open>json.loads\<close> returns. A JSON object is a Python \<^verbatim>\<open>dict\<close>: an association
  list in insertion order, looked up with \<open>map_of\<close>. A float is its mantissa and its
  binary exponent; the loader never computes with a number.
\<close>

datatype json =
    JNull
  | JBool bool
  | JNum int
  | JFloat int int
  | JStr string
  | JArr "json list"
  | JObj "(string \<times> json) list"

datatype error =
    JSONDecodeError
  | KeyError
  | TypeError
  | AttributeError
  | IndexError
  | ValueError
  | FileNotFoundError
  | NotADirectoryError
  | PermissionError
  | OSError
  | Unmodelled

definition bind_result :: "error + 'a \<Rightarrow> ('a \<Rightarrow> error + 'b) \<Rightarrow> error + 'b" where
  "bind_result m f = (case m of Inl e \<Rightarrow> Inl e | Inr x \<Rightarrow> f x)"

fun map_result :: "('a \<Rightarrow> error + 'b) \<Rightarrow> 'a list \<Rightarrow> error + 'b list" where
  "map_result f [] = Inr []"
| "map_result f (x # xs) =
     (case f x of
        Inl e \<Rightarrow> Inl e
      | Inr y \<Rightarrow> (case map_result f xs of Inl e \<Rightarrow> Inl e | Inr ys \<Rightarrow> Inr (y # ys)))"

text \<open>
  Iterating a decoded value with \<^verbatim>\<open>for x in v\<close>: a list yields its elements, a
  dict its keys, a string its characters; anything else is not iterable.
\<close>

fun iter_json :: "json \<Rightarrow> error + json list" where
  "iter_json (JArr xs) = Inr xs"
| "iter_json (JObj kvs) = Inr (map (\<lambda>kv. JStr (fst kv)) kvs)"
| "iter_json (JStr s) = Inr (map (\<lambda>c. JStr [c]) s)"
| "iter_json _ = Inl TypeError"

subsection \<open>Python string operations\<close>

definition startswith :: "string \<Rightarrow> string \<Rightarrow> bool" where
  "startswith s p = (take (length p) s = p)"

definition endswith :: "string \<Rightarrow> string \<Rightarrow> bool" where
  "endswith s p = (length p \<le> length s \<and> drop (length s - length p) s = p)"

text \<open>\<^verbatim>\<open>s[: -n]\<close> for \<open>n = len(ext)\<close>. In Python \<^verbatim>\<open>s[:-0]\<close> is \<^verbatim>\<open>s[:0]\<close>, the empty string.\<close>

definition slice_to_neg :: "string \<Rightarrow> nat \<Rightarrow> string" where
  "slice_to_neg s n = (if n = 0 then [] else take (length s - n) s)"

text \<open>
  \<^verbatim>\<open>s.split(sep)\<close> for a non-empty separator: the pieces between the
  non-overlapping occurrences of \<open>sep\<close>, found left to right. \<open>cur\<close> is the piece
  being read. (Python raises ValueError for an empty separator; the source only splits
  on the constant \<^verbatim>\<open>"{scene}"\<close>.)
\<close>

fun str_split_aux :: "string \<Rightarrow> string \<Rightarrow> string \<Rightarrow> string list" where
  "str_split_aux sep cur [] = [cur]"
| "str_split_aux sep cur (c # cs) =
     (if sep \<noteq> [] \<and> startswith (c # cs) sep
      then cur # str_split_aux sep [] (drop (length sep - 1) cs)
      else str_split_aux sep (cur @ [c]) cs)"

definition str_split :: "string \<Rightarrow> string \<Rightarrow> string list" where
  "str_split s sep = str_split_aux sep [] s"

text \<open>Indexing a list, \<^verbatim>\<open>xs[i]\<close> for \<open>i \<ge> 0\<close>: IndexError out of range.\<close>

definition index_list :: "'a list \<Rightarrow> nat \<Rightarrow> error + 'a" where
  "index_list xs i = (if i < length xs then Inr (xs ! i) else Inl IndexError)"

text \<open>
  \<^verbatim>\<open>template.format(**args)\<close>, for the fragment of Python's format strings the
  dataset templates use: literal text, the escapes \<^verbatim>\<open>{{\<close> and \<^verbatim>\<open>}}\<close>, and
  replacement fields that are plain keyword names. An empty or numeric field is
  positional (IndexError, as no positional argument is ever passed); an unknown name is
  a KeyError; an unmatched brace is a ValueError. A field with a conversion, a format
  specification, an attribute or an index is outside the fragment: the model answers
  \<open>Unmodelled\<close> there and no statement below is about such a template.
\<close>

definition format_field :: "(string \<times> string) list \<Rightarrow> string \<Rightarrow> error + string" where
  "format_field args name =
     (if list_ex (\<lambda>c. c \<in> set ''!:.[]'') name then Inl Unmodelled
      else if list_all (\<lambda>c. c \<in> set ''0123456789'') name then Inl IndexError
      else (case map_of args name of None \<Rightarrow> Inl KeyError | Some v \<Rightarrow> Inr v))"

fun py_format_aux ::
  "(string \<times> string) list \<Rightarrow> string option \<Rightarrow> string \<Rightarrow> error + string" where
  "py_format_aux args None [] = Inr []"
| "py_format_aux args (Some name) [] = Inl ValueError"
| "py_format_aux args None (c # cs) =
     (if c = CHR ''{'' then
        (case cs of
           d # ds \<Rightarrow>
             if d = CHR ''{''
             then bind_result (py_format_aux args None ds) (\<lambda>r. Inr (CHR ''{'' # r))
             else py_format_aux args (Some []) cs
         | [] \<Rightarrow> Inl ValueError)
      else if c = CHR ''}'' then
        (case cs of
           d # ds \<Rightarrow>
             if d = CHR ''}''
             then bind_result (py_format_aux args None ds) (\<lambda>r. Inr (CHR ''}'' # r))
             else Inl ValueError
         | [] \<Rightarrow> Inl ValueError)
      else bind_result (py_format_aux args None cs) (\<lambda>r. Inr (c # r)))"
| "py_format_aux args (Some name) (c # cs) =
     (if c = CHR ''}'' then
        bind_result (format_field args name)
          (\<lambda>v. bind_result (py_format_aux args None cs) (\<lambda>r. Inr (v @ r)))
      else if c = CHR ''{'' then Inl ValueError
      else py_format_aux args (Some (name @ [c])) cs)"

definition py_format :: "string \<Rightarrow> (string \<times> string) list \<Rightarrow> error + string" where
  "py_format template args = py_format_aux args None template"

text \<open>\<^verbatim>\<open>os.path.dirname\<close> and the two-argument \<^verbatim>\<open>os.path.join\<close> of posixpath.\<close>

definition dirname :: "string \<Rightarrow> string" where
  "dirname p =
     (let head = rev (dropWhile (\<lambda>c. c \<noteq> CHR ''/'') (rev p))
      in if head \<noteq> [] \<and> \<not> list_all (\<lambda>c. c = CHR ''/'') head
         then rev (dropWhile (\<lambda>c. c = CHR ''/'') (rev head))
         else head)"

definition path_join :: "string \<Rightarrow> string \<Rightarrow> string" where
  "path_join a b =
     (if startswith b ''/'' then b
      else if a = [] \<or> endswith a ''/'' then a @ b
      else a @ ''/'' @ b)"

subsection \<open>Episodes\<close>

text \<open>
  Modelled from the spec: the classes \<^verbatim>\<open>NavigationEpisode\<close>, \<^verbatim>\<open>NavigationGoal\<close>
  and \<^verbatim>\<open>ShortestPathPoint\<close> of \<^verbatim>\<open>habitat.tasks.nav.nav\<close> are not part of the
  source file. Following the spec's data model and file format, an episode is built from
  the keyword arguments \<^verbatim>\<open>episode_id\<close>, \<^verbatim>\<open>scene_id\<close>, \<^verbatim>\<open>start_position\<close>,
  \<^verbatim>\<open>start_rotation\<close> and \<^verbatim>\<open>goals\<close>, with \<^verbatim>\<open>shortest_paths\<close> optional
  (\<^verbatim>\<open>None\<close> when absent); a goal needs \<^verbatim>\<open>position\<close> and keeps its other fields; a
  waypoint needs \<^verbatim>\<open>position\<close>, \<^verbatim>\<open>rotation\<close> and \<^verbatim>\<open>action\<close>. A constructor
  called with \<^verbatim>\<open>**x\<close> raises TypeError when \<open>x\<close> is not a mapping or a required
  argument is missing. The constructors store the values as they are given.
\<close>

datatype navigation_goal =
  NavigationGoal (goal_position: json) (goal_fields: "(string \<times> json) list")

datatype shortest_path_point =
  ShortestPathPoint (point_position: json) (point_rotation: json) (point_action: json)

text \<open>The object right after \<^verbatim>\<open>NavigationEpisode(**episode)\<close>: every field holds raw JSON.\<close>

record raw_episode =
  raw_episode_id :: json
  raw_scene_id :: json
  raw_start_position :: json
  raw_start_rotation :: json
  raw_goals :: json
  raw_shortest_paths :: json

text \<open>
  The episode as \<^verbatim>\<open>from_json\<close> appends it. \<open>scene_id\<close> is whatever the document
  gave (a path string in a well-formed one). An empty dict or string given for
  \<^verbatim>\<open>goals\<close> or for a path is iterated zero times by the source and appears here as
  the empty list.
\<close>

record episode =
  episode_id :: json
  scene_id :: json
  start_position :: json
  start_rotation :: json
  goals :: "navigation_goal list"
  shortest_paths :: "shortest_path_point list list option"

definition kwargs :: "json \<Rightarrow> error + (string \<times> json) list" where
  "kwargs j = (case j of JObj kvs \<Rightarrow> Inr kvs | _ \<Rightarrow> Inl TypeError)"

definition required :: "(string \<times> json) list \<Rightarrow> string \<Rightarrow> error + json" where
  "required kvs k = (case map_of kvs k of None \<Rightarrow> Inl TypeError | Some v \<Rightarrow> Inr v)"

definition NavigationEpisode_new :: "json \<Rightarrow> error + raw_episode" where
  "NavigationEpisode_new j =
     bind_result (kwargs j) (\<lambda>kvs.
     bind_result (required kvs ''episode_id'') (\<lambda>eid.
     bind_result (required kvs ''scene_id'') (\<lambda>sid.
     bind_result (required kvs ''start_position'') (\<lambda>pos.
     bind_result (required kvs ''start_rotation'') (\<lambda>rot.
     bind_result (required kvs ''goals'') (\<lambda>gs.
       Inr \<lparr>raw_episode_id = eid, raw_scene_id = sid, raw_start_position = pos,
            raw_start_rotation = rot, raw_goals = gs,
            raw_shortest_paths =
              (case map_of kvs ''shortest_paths'' of None \<Rightarrow> JNull | Some v \<Rightarrow> v)\<rparr>))))))"

definition NavigationGoal_new :: "json \<Rightarrow> error + navigation_goal" where
  "NavigationGoal_new j =
     bind_result (kwargs j) (\<lambda>kvs.
     bind_result (required kvs ''position'') (\<lambda>pos.
       Inr (NavigationGoal pos (filter (\<lambda>kv. fst kv \<noteq> ''position'') kvs))))"

definition ShortestPathPoint_new :: "json \<Rightarrow> error + shortest_path_point" where
  "ShortestPathPoint_new j =
     bind_result (kwargs j) (\<lambda>kvs.
     bind_result (required kvs ''position'') (\<lambda>pos.
     bind_result (required kvs ''rotation'') (\<lambda>rot.
     bind_result (required kvs ''action'') (\<lambda>act.
       Inr (ShortestPathPoint pos rot act)))))"

subsection \<open>The dataset and \<^verbatim>\<open>from_json\<close>\<close>

definition CONTENT_SCENES_PATH_FIELD :: string where
  "CONTENT_SCENES_PATH_FIELD = ''content_scenes_path''"

definition DEFAULT_SCENE_PATH_PREFIX :: string where
  "DEFAULT_SCENE_PATH_PREFIX = ''data/scene_datasets/''"

text \<open>
  The object's two attributes. \<open>content_scenes_path\<close> holds whatever value a document
  declared under that key; using a value that is not a string as a template raises
  AttributeError where it is used.
\<close>

record dataset =
  episodes :: "episode list"
  content_scenes_path :: json

text \<open>The state of a fresh object: no episodes, the class attribute's template.\<close>

definition new_dataset :: dataset where
  "new_dataset =
     \<lparr>episodes = [], content_scenes_path = JStr ''{data_path}/content/{scene}.json.gz''\<rparr>"

text \<open>
  The operating system and the libraries the source calls.
  \<^item> \<open>lookup_error\<close>: the exception with which the operating system refuses to
    resolve a path, \<open>None\<close> when the path resolves. A path with a missing component
    gives FileNotFoundError, one that passes through a regular file NotADirectoryError,
    one through a directory that may not be searched PermissionError. Every call that
    takes a path fails with this exception, except \<^verbatim>\<open>os.path.exists\<close>, which
    catches it and answers \<^verbatim>\<open>False\<close>.
  \<^item> \<open>listdir\<close>: the entries \<^verbatim>\<open>os.listdir\<close> returns for a path that resolves
    (\<open>None\<close>: it cannot be listed).
  \<^item> \<open>gzip_text\<close>: the text \<^verbatim>\<open>gzip.open(path, "rt").read()\<close> yields for a path that
    resolves (\<open>None\<close>: the file cannot be read or decompressed).
  \<^item> \<open>access_error\<close>: the exception raised for a path that resolves and cannot be
    listed or read.
  \<^item> \<open>json_loads\<close>: \<^verbatim>\<open>json.loads\<close> (\<open>None\<close>: the text is not JSON).
  \<^item> \<open>scene_from_scene_path\<close>: the static method of the base class \<^verbatim>\<open>Dataset\<close>,
    which is not part of the source file.
\<close>

record env =
  lookup_error :: "string \<Rightarrow> error option"
  listdir :: "string \<Rightarrow> string list option"
  gzip_text :: "string \<Rightarrow> string option"
  access_error :: "string \<Rightarrow> error"
  json_loads :: "string \<Rightarrow> json option"
  scene_from_scene_path :: "json \<Rightarrow> error + string"

text \<open>\<^verbatim>\<open>os.path.exists\<close>: whether the path resolves.\<close>

definition path_exists :: "env \<Rightarrow> string \<Rightarrow> bool" where
  "path_exists world p = (lookup_error world p = None)"

datatype event =
    PathExists string
  | ListDir string
  | GzipRead string
  | JsonLoads string

text \<open>Lines 169 to 178: the rewrite of \<^verbatim>\<open>episode.scene_id\<close>.\<close>

definition rewrite_scene_id :: "string option \<Rightarrow> json \<Rightarrow> error + json" where
  "rewrite_scene_id scenes_dir sid =
     (case scenes_dir of
        None \<Rightarrow> Inr sid
      | Some sd \<Rightarrow>
          (case sid of
             JStr s \<Rightarrow>
               Inr (JStr (path_join sd
                 (if startswith s DEFAULT_SCENE_PATH_PREFIX
                  then drop (length DEFAULT_SCENE_PATH_PREFIX) s
                  else s)))
           | _ \<Rightarrow> Inl AttributeError))"

definition convert_shortest_paths ::
  "json \<Rightarrow> error + shortest_path_point list list option" where
  "convert_shortest_paths v =
     (if v = JNull then Inr None
      else bind_result (iter_json v) (\<lambda>paths.
           bind_result
             (map_result (\<lambda>path. bind_result (iter_json path) (map_result ShortestPathPoint_new))
                paths)
             (\<lambda>ps. Inr (Some ps))))"

text \<open>One turn of the loop of \<^verbatim>\<open>from_json\<close>, up to the \<^verbatim>\<open>append\<close>.\<close>

definition parse_episode :: "string option \<Rightarrow> json \<Rightarrow> error + episode" where
  "parse_episode scenes_dir j =
     bind_result (NavigationEpisode_new j) (\<lambda>r.
     bind_result (rewrite_scene_id scenes_dir (raw_scene_id r)) (\<lambda>sid.
     bind_result (bind_result (iter_json (raw_goals r)) (map_result NavigationGoal_new)) (\<lambda>gs.
     bind_result (convert_shortest_paths (raw_shortest_paths r)) (\<lambda>sps.
       Inr \<lparr>episode_id = raw_episode_id r, scene_id = sid,
            start_position = raw_start_position r, start_rotation = raw_start_rotation r,
            goals = gs, shortest_paths = sps\<rparr>))))"

text \<open>
  The loop over the document's episodes. An episode is appended as soon as it is built,
  so the episodes appended before a failing one stay in the list.
\<close>

fun from_json_loop ::
  "string option \<Rightarrow> json list \<Rightarrow> episode list \<Rightarrow> error option \<times> episode list" where
  "from_json_loop scenes_dir [] eps = (None, eps)"
| "from_json_loop scenes_dir (j # js) eps =
     (case parse_episode scenes_dir j of
        Inl e \<Rightarrow> (Some e, eps)
      | Inr ep \<Rightarrow> from_json_loop scenes_dir js (eps @ [ep]))"

text \<open>
  Lines 161 and 162: a document that has the key \<^verbatim>\<open>content_scenes_path\<close> assigns its
  value to the object's template.
\<close>

definition declare_template :: "(string \<times> json) list \<Rightarrow> dataset \<Rightarrow> dataset" where
  "declare_template kvs self =
     (case map_of kvs CONTENT_SCENES_PATH_FIELD of
        Some t \<Rightarrow> self\<lparr>content_scenes_path := t\<rparr>
      | None \<Rightarrow> self)"

text \<open>
  \<^verbatim>\<open>from_json\<close>: the raised exception if any, and \<open>self\<close> as the call leaves it. A
  decoded value that is not a dict raises TypeError at the membership test or at the
  subscript, before anything is assigned.
\<close>

definition from_json ::
  "env \<Rightarrow> string \<Rightarrow> string option \<Rightarrow> dataset \<Rightarrow> event list
     \<Rightarrow> (error option \<times> dataset) \<times> event list" where
  "from_json world json_str scenes_dir self log =
     (case json_loads world json_str of
        None \<Rightarrow> ((Some JSONDecodeError, self), log @ [JsonLoads json_str])
      | Some (JObj kvs) \<Rightarrow>
          (let self1 = declare_template kvs self
           in case map_of kvs ''episodes'' of
                None \<Rightarrow> ((Some KeyError, self1), log @ [JsonLoads json_str])
              | Some v \<Rightarrow>
                  (case iter_json v of
                     Inl e \<Rightarrow> ((Some e, self1), log @ [JsonLoads json_str])
                   | Inr items \<Rightarrow>
                       (case from_json_loop scenes_dir items (episodes self1) of
                          (r, eps) \<Rightarrow>
                            ((r, self1\<lparr>episodes := eps\<rparr>), log @ [JsonLoads json_str]))))
      | Some _ \<Rightarrow> ((Some TypeError, self), log @ [JsonLoads json_str]))"

subsection \<open>Effects\<close>

text \<open>
  A computation that may raise and that appends to the log the calls it makes.
\<close>

type_synonym 'a io = "event list \<Rightarrow> (error + 'a) \<times> event list"

definition io_pure :: "error + 'a \<Rightarrow> 'a io" where
  "io_pure r log = (r, log)"

definition io_bind :: "'a io \<Rightarrow> ('a \<Rightarrow> 'b io) \<Rightarrow> 'b io" where
  "io_bind m f log = (case m log of (Inl e, log1) \<Rightarrow> (Inl e, log1) | (Inr x, log1) \<Rightarrow> f x log1)"

definition os_path_exists :: "env \<Rightarrow> string \<Rightarrow> bool io" where
  "os_path_exists world p log = (Inr (path_exists world p), log @ [PathExists p])"

definition os_listdir :: "env \<Rightarrow> string \<Rightarrow> string list io" where
  "os_listdir world p log =
     ((case lookup_error world p of
         Some e \<Rightarrow> Inl e
       | None \<Rightarrow>
           (case listdir world p of
              None \<Rightarrow> Inl (access_error world p)
            | Some names \<Rightarrow> Inr names)),
      log @ [ListDir p])"

text \<open>
  \<^verbatim>\<open>with gzip.open(path, "rt") as f: f.read()\<close>: a path that does not resolve raises
  the exception of the lookup, which is FileNotFoundError only when a component is
  missing; a file that cannot be read as gzip text raises its own exception.
\<close>

definition gzip_open_read :: "env \<Rightarrow> string \<Rightarrow> string io" where
  "gzip_open_read world p log =
     ((case lookup_error world p of
         Some e \<Rightarrow> Inl e
       | None \<Rightarrow>
           (case gzip_text world p of
              None \<Rightarrow> Inl (access_error world p)
            | Some txt \<Rightarrow> Inr txt)),
      log @ [GzipRead p])"

text \<open>A call \<^verbatim>\<open>self.from_json(...)\<close> inside a constructor: an exception leaves the constructor.\<close>

definition call_from_json :: "env \<Rightarrow> string \<Rightarrow> string option \<Rightarrow> dataset \<Rightarrow> dataset io" where
  "call_from_json world json_str scenes_dir self log =
     (case from_json world json_str scenes_dir self log of
        ((Some e, self1), log1) \<Rightarrow> (Inl e, log1)
      | ((None, self1), log1) \<Rightarrow> (Inr self1, log1))"

subsection \<open>Scene discovery\<close>

text \<open>\<^verbatim>\<open>content_scenes_path.split("{scene}")\<close>; a value that is not a string has no \<^verbatim>\<open>split\<close>.\<close>

definition template_parts :: "json \<Rightarrow> error + string list" where
  "template_parts t = (case t of JStr s \<Rightarrow> Inr (str_split s ''{scene}'') | _ \<Rightarrow> Inl AttributeError)"

text \<open>\<^verbatim>\<open>content_scenes_path.split("{scene}")[0].format(data_path=dataset_dir)\<close>.\<close>

definition content_dir_of :: "json \<Rightarrow> string \<Rightarrow> error + string" where
  "content_dir_of t dataset_dir =
     bind_result (template_parts t) (\<lambda>parts.
     bind_result (index_list parts 0) (\<lambda>content_dir.
       py_format content_dir [(''data_path'', dataset_dir)]))"

definition get_scenes_from_folder :: "env \<Rightarrow> json \<Rightarrow> string \<Rightarrow> string list io" where
  "get_scenes_from_folder world t dataset_dir =
     io_bind (io_pure (template_parts t)) (\<lambda>parts.
     io_bind (io_pure (index_list parts 0)) (\<lambda>content_dir0.
     io_bind (io_pure (index_list parts 1)) (\<lambda>scene_dataset_ext.
     io_bind (io_pure (py_format content_dir0 [(''data_path'', dataset_dir)])) (\<lambda>content_dir.
     io_bind (os_path_exists world content_dir) (\<lambda>found.
       if \<not> found then io_pure (Inr [])
       else io_bind (os_listdir world content_dir) (\<lambda>names.
         io_pure (Inr (sort
           (map (\<lambda>filename. slice_to_neg filename (length scene_dataset_ext))
              (filter (\<lambda>filename. endswith filename scene_dataset_ext) names))))))))))"

subsection \<open>The constructor\<close>

record config =
  data_path :: string
  split :: string
  scenes_dir :: "string option"
  content_scenes :: "string list"

text \<open>
  Modelled from the spec: the all-scenes sentinel \<^verbatim>\<open>ALL_SCENES_MASK\<close> of
  \<^verbatim>\<open>habitat.core.dataset\<close> is not part of the source file; the source's comment at its
  use names the value \<^verbatim>\<open>*\<close>.
\<close>

definition ALL_SCENES_MASK :: string where
  "ALL_SCENES_MASK = ''*''"

text \<open>
  Modelled from the spec: \<^verbatim>\<open>build_content_scenes_filter\<close> and the property
  \<^verbatim>\<open>scene_ids\<close> belong to the base class \<^verbatim>\<open>Dataset\<close>, which is not part of the
  source file. The filter keeps every episode when the sentinel is requested, and
  otherwise the episodes whose scene identifier (\<open>scene_from_scene_path\<close> of the
  \<open>scene_id\<close>) is requested; \<open>scene_ids\<close> are the distinct \<open>scene_id\<close>s, sorted.
\<close>

definition content_scenes_filter :: "env \<Rightarrow> string list \<Rightarrow> episode \<Rightarrow> error + bool" where
  "content_scenes_filter world scenes ep =
     (if ALL_SCENES_MASK \<in> set scenes then Inr True
      else bind_result (scene_from_scene_path world (scene_id ep)) (\<lambda>s. Inr (s \<in> set scenes)))"

fun filter_result :: "('a \<Rightarrow> error + bool) \<Rightarrow> 'a list \<Rightarrow> error + 'a list" where
  "filter_result f [] = Inr []"
| "filter_result f (x # xs) =
     (case f x of
        Inl e \<Rightarrow> Inl e
      | Inr b \<Rightarrow>
          (case filter_result f xs of
             Inl e \<Rightarrow> Inl e
           | Inr ys \<Rightarrow> Inr (if b then x # ys else ys)))"

definition scene_ids :: "dataset \<Rightarrow> error + string list" where
  "scene_ids self =
     bind_result
       (map_result (\<lambda>ep. case scene_id ep of JStr s \<Rightarrow> Inr s | _ \<Rightarrow> Inl TypeError) (episodes self))
       (\<lambda>ids. Inr (sort (remdups ids)))"

text \<open>
  Lines 135 to 141: one shard file per scene, in the order of the list. The file name
  (\<^verbatim>\<open>self.content_scenes_path.format(data_path=dataset_dir, scene=scene)\<close>) is
  formatted from the template the object holds when the scene's turn comes.
\<close>

definition scene_filename :: "json \<Rightarrow> string \<Rightarrow> string \<Rightarrow> error + string" where
  "scene_filename t dataset_dir scene =
     (case t of
        JStr s \<Rightarrow> py_format s [(''data_path'', dataset_dir), (''scene'', scene)]
      | _ \<Rightarrow> Inl AttributeError)"

fun load_scenes :: "env \<Rightarrow> config \<Rightarrow> string \<Rightarrow> string list \<Rightarrow> dataset \<Rightarrow> dataset io" where
  "load_scenes world cfg dataset_dir [] self = io_pure (Inr self)"
| "load_scenes world cfg dataset_dir (scene # rest) self =
     io_bind (io_pure (scene_filename (content_scenes_path self) dataset_dir scene)) (\<lambda>file.
     io_bind (gzip_open_read world file) (\<lambda>txt.
     io_bind (call_from_json world txt (scenes_dir cfg) self) (\<lambda>self1.
       load_scenes world cfg dataset_dir rest self1)))"

text \<open>\<^verbatim>\<open>PointNavDatasetV1.__init__\<close>.\<close>

definition init :: "env \<Rightarrow> config option \<Rightarrow> dataset io" where
  "init world config =
     (case config of
        None \<Rightarrow> io_pure (Inr new_dataset)
      | Some cfg \<Rightarrow>
          io_bind (io_pure (py_format (data_path cfg) [(''split'', split cfg)]))
            (\<lambda>datasetfile_path.
          io_bind (gzip_open_read world datasetfile_path) (\<lambda>txt.
          io_bind (call_from_json world txt (scenes_dir cfg) new_dataset) (\<lambda>self1.
          io_bind (io_pure (content_dir_of (content_scenes_path self1) (dirname datasetfile_path)))
            (\<lambda>content_dir.
          io_bind (os_path_exists world content_dir) (\<lambda>has_individual_scene_files.
            if has_individual_scene_files then
              io_bind
                (if ALL_SCENES_MASK \<in> set (content_scenes cfg)
                 then get_scenes_from_folder world (content_scenes_path self1)
                        (dirname datasetfile_path)
                 else io_pure (Inr (content_scenes cfg)))
                (\<lambda>scenes. load_scenes world cfg (dirname datasetfile_path) scenes self1)
            else
              io_pure
                (bind_result
                   (filter_result (content_scenes_filter world (content_scenes cfg))
                      (episodes self1))
                   (\<lambda>eps. Inr (self1\<lparr>episodes := eps\<rparr>)))))))))"

subsection \<open>Listing the available scenes\<close>

definition check_config_paths_exist :: "env \<Rightarrow> config \<Rightarrow> bool io" where
  "check_config_paths_exist world cfg =
     io_bind (io_pure (py_format (data_path cfg) [(''split'', split cfg)])) (\<lambda>p.
     io_bind (os_path_exists world p) (\<lambda>found.
       if \<not> found then io_pure (Inr False)
       else (case scenes_dir cfg of
               None \<Rightarrow> io_pure (Inl TypeError)
             | Some sd \<Rightarrow> os_path_exists world sd)))"

definition get_scenes_to_load :: "env \<Rightarrow> config \<Rightarrow> string list io" where
  "get_scenes_to_load world cfg =
     io_bind (io_pure (py_format (data_path cfg) [(''split'', split cfg)])) (\<lambda>p.
     io_bind (check_config_paths_exist world cfg) (\<lambda>ok.
       if \<not> ok then io_pure (Inl FileNotFoundError)
       else
         io_bind (init world (Some (cfg\<lparr>content_scenes := []\<rparr>))) (\<lambda>dataset.
         io_bind (io_pure (content_dir_of (content_scenes_path dataset) (dirname p)))
           (\<lambda>content_dir.
         io_bind (os_path_exists world content_dir) (\<lambda>has_individual_scene_files.
           if has_individual_scene_files then
             get_scenes_from_folder world (content_scenes_path dataset) (dirname p)
           else
             io_bind (init world (Some (cfg\<lparr>content_scenes := [ALL_SCENES_MASK]\<rparr>)))
               (\<lambda>dataset2.
             io_bind (io_pure (scene_ids dataset2)) (\<lambda>ids.
               io_pure (map_result (\<lambda>s. scene_from_scene_path world (JStr s)) ids))))))))"

subsection \<open>Several documents, one object\<close>

text \<open>
  Successive calls of \<^verbatim>\<open>from_json\<close> on one object, as the constructor makes them for
  the combined file and then for each shard; the first exception ends the sequence.
\<close>

fun from_json_seq ::
  "env \<Rightarrow> string option \<Rightarrow> string list \<Rightarrow> dataset \<Rightarrow> event list
     \<Rightarrow> (error option \<times> dataset) \<times> event list" where
  "from_json_seq world asset_root [] self log = ((None, self), log)"
| "from_json_seq world asset_root (json_str # docs) self log =
     (case from_json world json_str asset_root self log of
        ((Some e, self1), log1) \<Rightarrow> ((Some e, self1), log1)
      | ((None, self1), log1) \<Rightarrow> from_json_seq world asset_root docs self1 log1)"

text \<open>The template a document declares, if it decodes to an object that has the key.\<close>

definition declared_template :: "env \<Rightarrow> string \<Rightarrow> json option" where
  "declared_template world json_str =
     (case json_loads world json_str of
        Some (JObj kvs) \<Rightarrow> map_of kvs CONTENT_SCENES_PATH_FIELD
      | _ \<Rightarrow> None)"

subsection \<open>An example installation\<close>

text \<open>
  A small file system used to run the definitions: a combined file \<^verbatim>\<open>d/t.json.gz\<close>
  that holds one episode, a content directory with the shards of the scenes \<open>A\<close> and
  \<open>B\<close> and a file that is no shard, and a second content directory \<^verbatim>\<open>e/content/\<close>
  whose shard files have no extension. A path below the regular file
  \<^verbatim>\<open>d/t.json.gz\<close> is refused with NotADirectoryError, any other path that is not
  listed with FileNotFoundError. File contents are named rather than spelled out;
  \<open>demo_documents\<close> gives what each decodes to, and any other text is not JSON.
\<close>

definition demo_episode_json :: "string \<Rightarrow> string \<Rightarrow> json" where
  "demo_episode_json eid sid =
     JObj [(''episode_id'', JStr eid), (''scene_id'', JStr sid), (''start_position'', JArr []),
           (''start_rotation'', JArr []), (''goals'', JArr [JObj [(''position'', JArr [])]])]"

definition demo_episode :: "string \<Rightarrow> string \<Rightarrow> episode" where
  "demo_episode eid sid =
     \<lparr>episode_id = JStr eid, scene_id = JStr sid, start_position = JArr [],
      start_rotation = JArr [], goals = [NavigationGoal (JArr []) []], shortest_paths = None\<rparr>"

definition demo_documents :: "(string \<times> json) list" where
  "demo_documents =
     [(''combined'',
         JObj [(''episodes'', JArr [demo_episode_json ''c1'' ''data/scene_datasets/g/C.glb''])]),
      (''shard A'',
         JObj [(''episodes'',
           JArr [demo_episode_json ''a1'' ''data/scene_datasets/g/A.glb'',
                 demo_episode_json ''a2'' ''g/A.glb''])]),
      (''shard B'', JObj [(''episodes'', JArr [demo_episode_json ''b1'' ''g/B.glb''])]),
      (''broken'',
         JObj [(''episodes'',
           JArr [demo_episode_json ''x1'' ''g/X.glb'', JObj [(''episode_id'', JStr ''x2'')],
                 demo_episode_json ''x3'' ''g/X.glb''])]),
      (''template 1'',
         JObj [(''content_scenes_path'', JStr ''{data_path}/one/{scene}.gz''),
               (''episodes'', JArr [])]),
      (''template 2'',
         JObj [(''episodes'', JArr []),
               (''content_scenes_path'', JStr ''{data_path}/two/{scene}.gz'')])]"

definition demo_world :: env where
  "demo_world =
     \<lparr>lookup_error =
        (\<lambda>p. if p \<in> set [''d'', ''d/t.json.gz'', ''d/content/'', ''d/content/A.json.gz'',
                          ''d/content/B.json.gz'', ''e/content/'', ''assets'']
              then None
              else if startswith p ''d/t.json.gz/'' then Some NotADirectoryError
              else Some FileNotFoundError),
      listdir = map_of [(''d/content/'', [''B.json.gz'', ''notes.txt'', ''A.json.gz'']),
                        (''e/content/'', [''B'', ''A''])],
      gzip_text = map_of [(''d/t.json.gz'', ''combined''),
                          (''d/content/A.json.gz'', ''shard A''),
                          (''d/content/B.json.gz'', ''shard B'')],
      access_error = (\<lambda>p. OSError),
      json_loads = map_of demo_documents,
      scene_from_scene_path = (\<lambda>j. case j of JStr s \<Rightarrow> Inr s | _ \<Rightarrow> Inl TypeError)\<rparr>"

definition demo_config :: "string list \<Rightarrow> config" where
  "demo_config scenes =
     \<lparr>data_path = ''d/{split}.json.gz'', split = ''t'', scenes_dir = Some ''assets'',
      content_scenes = scenes\<rparr>"

subsection \<open>Observations\<close>

text \<open>The files opened with \<^verbatim>\<open>gzip.open\<close>, in the order of the log.\<close>

fun files_read :: "event list \<Rightarrow> string list" where
  "files_read [] = []"
| "files_read (GzipRead p # l) = p # files_read l"
| "files_read (ev # l) = files_read l"

text \<open>
  The rewrite as the specification words it, to compare with what \<^verbatim>\<open>from_json\<close>
  appends: with an asset root, the root joined with the document's \<^verbatim>\<open>scene_id\<close>,
  the default prefix stripped when the \<^verbatim>\<open>scene_id\<close> begins with it; with no asset
  root, the document's \<^verbatim>\<open>scene_id\<close> as it is. \<open>None\<close> where the specification
  gives no value (no \<^verbatim>\<open>scene_id\<close>, or one that is not a string to be rewritten).
\<close>

definition spec_scene_id :: "string option \<Rightarrow> json \<Rightarrow> json option" where
  "spec_scene_id asset_root j =
     (case j of
        JObj kvs \<Rightarrow>
          (case map_of kvs ''scene_id'' of
             None \<Rightarrow> None
           | Some sid \<Rightarrow>
               (case asset_root of
                  None \<Rightarrow> Some sid
                | Some root \<Rightarrow>
                    (case sid of
                       JStr s \<Rightarrow>
                         Some (JStr (path_join root
                           (if startswith s DEFAULT_SCENE_PATH_PREFIX
                            then drop (length DEFAULT_SCENE_PATH_PREFIX) s
                            else s)))
                     | _ \<Rightarrow> None)))
      | _ \<Rightarrow> None)"

text \<open>What the example installation loads.\<close>

definition demo_template :: json where
  "demo_template = JStr ''{data_path}/content/{scene}.json.gz''"

definition demo_combined :: dataset where
  "demo_combined =
     \<lparr>episodes = [demo_episode ''c1'' ''assets/g/C.glb''], content_scenes_path = demo_template\<rparr>"

definition demo_shard_A :: "episode list" where
  "demo_shard_A = [demo_episode ''a1'' ''assets/g/A.glb'', demo_episode ''a2'' ''assets/g/A.glb'']"

definition demo_shard_B :: "episode list" where
  "demo_shard_B = [demo_episode ''b1'' ''assets/g/B.glb'']"

text \<open>A configuration whose data path points into a directory that does not exist.\<close>

definition demo_missing_config :: config where
  "demo_missing_config =
     \<lparr>data_path = ''missing/{split}.json.gz'', split = ''t'', scenes_dir = Some ''assets'',
      content_scenes = [''*'']\<rparr>"

text \<open>A configuration whose data path points below a regular file.\<close>

definition demo_below_file_config :: config where
  "demo_below_file_config =
     \<lparr>data_path = ''d/t.json.gz/sub/{split}.json.gz'', split = ''t'',
      scenes_dir = Some ''assets'', content_scenes = [''*'']\<rparr>"

section \<open>Properties\<close>

subsection \<open>The episode loop\<close>

lemma from_json_loop_acc:
  "from_json_loop sd items eps =
     (fst (from_json_loop sd items []), eps @ snd (from_json_loop sd items []))"
proof (induction items arbitrary: eps)
  case Nil
  show ?case by simp
next
  case (Cons j js)
  show ?case
  proof (cases "parse_episode sd j")
    case (Inl e)
    then show ?thesis by simp
  next
    case (Inr ep)
    have "from_json_loop sd (j # js) eps = from_json_loop sd js (eps @ [ep])"
      using Inr by simp
    also have "\<dots> = (fst (from_json_loop sd js []), (eps @ [ep]) @ snd (from_json_loop sd js []))"
      by (rule Cons.IH)
    finally have a: "from_json_loop sd (j # js) eps =
        (fst (from_json_loop sd js []), eps @ [ep] @ snd (from_json_loop sd js []))" by simp
    have b: "from_json_loop sd (j # js) [] =
        (fst (from_json_loop sd js []), [ep] @ snd (from_json_loop sd js []))"
      using Inr Cons.IH [of "[ep]"] by simp
    show ?thesis using a b by simp
  qed
qed

lemma from_json_loop_fail:
  "map_result (parse_episode sd) good = Inr new \<Longrightarrow> parse_episode sd bad = Inl e \<Longrightarrow>
     from_json_loop sd (good @ bad # rest) eps = (Some e, eps @ new)"
proof (induction good arbitrary: eps new)
  case Nil
  then show ?case by simp
next
  case (Cons j js)
  then show ?case by (auto split: sum.splits)
qed

lemma from_json_loop_prefix:
  "from_json_loop sd items eps = (r, eps') \<Longrightarrow>
     \<exists>new. eps' = eps @ new \<and> length new \<le> length items \<and>
       (r = None \<longrightarrow> length new = length items) \<and>
       map_result (parse_episode sd) (take (length new) items) = Inr new"
proof (induction items arbitrary: eps)
  case Nil
  then show ?case by simp
next
  case (Cons j js)
  show ?case
  proof (cases "parse_episode sd j")
    case (Inl e)
    then have "eps' = eps @ []" and "r \<noteq> None" using Cons.prems by auto
    then show ?thesis by (intro exI [of _ "[]"]) simp
  next
    case (Inr ep)
    then have "from_json_loop sd js (eps @ [ep]) = (r, eps')" using Cons.prems by simp
    then obtain new where n: "eps' = (eps @ [ep]) @ new" "length new \<le> length js"
      "r = None \<longrightarrow> length new = length js"
      "map_result (parse_episode sd) (take (length new) js) = Inr new"
      using Cons.IH by blast
    show ?thesis
      using n Inr by (intro exI [of _ "ep # new"]) simp
  qed
qed

subsection \<open>One document\<close>

lemma from_json_object:
  assumes "json_loads world s = Some (JObj kvs)"
    and "map_of kvs ''episodes'' = Some v"
    and "iter_json v = Inr items"
  shows "from_json world s sd self log =
     ((fst (from_json_loop sd items []),
       (declare_template kvs self)\<lparr>episodes := episodes self @ snd (from_json_loop sd items [])\<rparr>),
      log @ [JsonLoads s])"
proof -
  have e: "episodes (declare_template kvs self) = episodes self"
    by (simp add: declare_template_def split: option.splits)
  obtain r eps where l: "from_json_loop sd items (episodes self) = (r, eps)"
    by (cases "from_json_loop sd items (episodes self)")
  have "r = fst (from_json_loop sd items [])"
    and "eps = episodes self @ snd (from_json_loop sd items [])"
    using l from_json_loop_acc [of sd items "episodes self"] by simp_all
  then show ?thesis
    using assms l e by (simp add: from_json_def declare_template_def split: option.splits)
qed

lemma map_result_list_all2:
  "map_result f xs = Inr ys \<Longrightarrow> list_all2 (\<lambda>x y. f x = Inr y) xs ys"
proof (induction xs arbitrary: ys)
  case Nil
  then show ?case by simp
next
  case (Cons x xs)
  then show ?case by (auto split: sum.splits)
qed

lemma parse_episode_scene_id:
  assumes "parse_episode sd j = Inr ep"
  shows "\<exists>fields sid. j = JObj fields \<and> map_of fields ''scene_id'' = Some sid \<and>
           rewrite_scene_id sd sid = Inr (scene_id ep)"
  using assms
  by (auto simp: parse_episode_def NavigationEpisode_new_def kwargs_def required_def bind_result_def
      split: sum.splits json.splits option.splits)

lemma rewrite_scene_id_cases:
  assumes "rewrite_scene_id sd sid = Inr r"
  shows "case sd of
           None \<Rightarrow> r = sid
         | Some root \<Rightarrow>
             \<exists>s. sid = JStr s \<and>
               r = JStr (path_join root
                     (if startswith s DEFAULT_SCENE_PATH_PREFIX
                      then drop (length DEFAULT_SCENE_PATH_PREFIX) s else s))"
  using assms by (auto simp: rewrite_scene_id_def split: option.splits json.splits)

lemma parse_episode_spec_scene_id:
  assumes "parse_episode sd j = Inr ep"
  shows "spec_scene_id sd j = Some (scene_id ep)"
proof -
  obtain kvs sid where f: "j = JObj kvs" "map_of kvs ''scene_id'' = Some sid"
    and rw: "rewrite_scene_id sd sid = Inr (scene_id ep)"
    using assms parse_episode_scene_id by blast
  show ?thesis
    using f rewrite_scene_id_cases [OF rw]
    by (auto simp: spec_scene_id_def split: option.splits)
qed

lemma list_all2_map_eq:
  "list_all2 (\<lambda>x y. f x = g y) xs ys \<Longrightarrow> map f xs = map g ys"
  by (induction xs ys rule: list_all2_induct) simp_all

lemma from_json_template:
  "from_json world s sd self log = ((None, self'), log') \<Longrightarrow>
     content_scenes_path self' =
       (case declared_template world s of None \<Rightarrow> content_scenes_path self | Some t \<Rightarrow> t)"
  by (auto simp: from_json_def declared_template_def declare_template_def Let_def
      split: option.splits json.splits sum.splits prod.splits)

lemma files_read_append: "files_read (l1 @ l2) = files_read l1 @ files_read l2"
  by (induction l1 rule: files_read.induct) simp_all

lemma from_json_log:
  "snd (from_json world s sd self log) = log @ [JsonLoads s]"
  by (simp add: from_json_def Let_def split: option.splits json.splits sum.splits prod.splits)

lemma from_json_fst_log:
  "fst (from_json world s sd self log) = fst (from_json world s sd self [])"
  by (simp add: from_json_def Let_def split: option.splits json.splits sum.splits prod.splits)

lemma declare_template_episodes:
  "declare_template kvs (self\<lparr>episodes := x\<rparr>) = (declare_template kvs self)\<lparr>episodes := x\<rparr>"
  by (simp add: declare_template_def split: option.splits)

lemma declare_template_same:
  "(declare_template kvs self)\<lparr>episodes := episodes self\<rparr> = declare_template kvs self"
  by (simp add: declare_template_def split: option.splits)

lemma from_json_acc:
  assumes "fst (from_json world s sd (self\<lparr>episodes := []\<rparr>) []) = (r, d)"
  shows "from_json world s sd self log =
           ((r, d\<lparr>episodes := episodes self @ episodes d\<rparr>), log @ [JsonLoads s])"
proof (cases "\<exists>kvs v items. json_loads world s = Some (JObj kvs) \<and> map_of kvs ''episodes'' = Some v
            \<and> iter_json v = Inr items")
  case True
  then obtain kvs v items where a: "json_loads world s = Some (JObj kvs)"
    "map_of kvs ''episodes'' = Some v" "iter_json v = Inr items" by blast
  show ?thesis
    using assms from_json_object [OF a, of sd self log]
      from_json_object [OF a, of sd "self\<lparr>episodes := []\<rparr>" "[]"]
    by (auto simp: declare_template_episodes)
next
  case False
  then show ?thesis
    using assms
    by (auto simp: from_json_def Let_def declare_template_episodes declare_template_same
        split: option.splits json.splits sum.splits prod.splits)
qed

subsection \<open>The shard loop\<close>

lemma call_from_json_acc:
  assumes "fst (call_from_json world doc sd \<lparr>episodes = [], content_scenes_path = t\<rparr> [])
             = Inr \<lparr>episodes = es, content_scenes_path = t\<rparr>"
  shows "call_from_json world doc sd \<lparr>episodes = acc, content_scenes_path = t\<rparr> log
           = (Inr \<lparr>episodes = acc @ es, content_scenes_path = t\<rparr>, log @ [JsonLoads doc])"
proof -
  obtain r d where f: "fst (from_json world doc sd \<lparr>episodes = [], content_scenes_path = t\<rparr> []) = (r, d)"
    by (metis prod.collapse)
  have rd: "r = None \<and> d = \<lparr>episodes = es, content_scenes_path = t\<rparr>"
    using assms f
    by (cases "from_json world doc sd \<lparr>episodes = [], content_scenes_path = t\<rparr> []")
       (auto simp: call_from_json_def split: option.splits)
  have "from_json world doc sd \<lparr>episodes = acc, content_scenes_path = t\<rparr> log =
           ((r, d\<lparr>episodes := acc @ episodes d\<rparr>), log @ [JsonLoads doc])"
    using from_json_acc [of world doc sd "\<lparr>episodes = acc, content_scenes_path = t\<rparr>" r d log] f
    by simp
  then show ?thesis using rd by (simp add: call_from_json_def)
qed

lemma call_from_json_fst_log:
  "fst (call_from_json world d sd self log) = fst (call_from_json world d sd self [])"
proof -
  obtain r self1 where f: "fst (from_json world d sd self []) = (r, self1)"
    by (metis prod.collapse)
  have "fst (from_json world d sd self log) = (r, self1)"
    using f from_json_fst_log [of world d sd self log] by simp
  then show ?thesis
    using f
    by (cases "from_json world d sd self log"; cases "from_json world d sd self []"; cases r)
       (simp_all add: call_from_json_def)
qed

lemma load_scenes_one:
  assumes "fst (load_scenes world cfg dir [scene] \<lparr>episodes = [], content_scenes_path = t\<rparr> [])
             = Inr \<lparr>episodes = es, content_scenes_path = t\<rparr>"
    and "scene_filename t dir scene = Inr file"
  shows "\<exists>doc. gzip_open_read world file log = (Inr doc, log @ [GzipRead file]) \<and>
           fst (call_from_json world doc (scenes_dir cfg)
                  \<lparr>episodes = [], content_scenes_path = t\<rparr> [])
             = Inr \<lparr>episodes = es, content_scenes_path = t\<rparr>"
proof -
  obtain g where g: "gzip_open_read world file [] = (g, [GzipRead file])"
    by (simp add: gzip_open_read_def)
  show ?thesis
  proof (cases g)
    case (Inl e)
    then show ?thesis using assms g by (simp add: io_bind_def io_pure_def)
  next
    case (Inr doc)
    have l: "gzip_open_read world file log = (Inr doc, log @ [GzipRead file])"
      using g Inr by (auto simp: gzip_open_read_def split: if_splits option.splits)
    obtain c l1 where c: "call_from_json world doc (scenes_dir cfg)
        \<lparr>episodes = [], content_scenes_path = t\<rparr> [GzipRead file] = (c, l1)"
      by (metis prod.collapse)
    have c0: "fst (call_from_json world doc (scenes_dir cfg)
        \<lparr>episodes = [], content_scenes_path = t\<rparr> []) = c"
      using c call_from_json_fst_log
        [of world doc "scenes_dir cfg" "\<lparr>episodes = [], content_scenes_path = t\<rparr>" "[GzipRead file]"]
      by simp
    have eq: "load_scenes world cfg dir [scene] \<lparr>episodes = [], content_scenes_path = t\<rparr> []
        = (case c of Inl e \<Rightarrow> (Inl e, l1) | Inr x \<Rightarrow> (Inr x, l1))"
      using assms(2) g Inr c by (simp add: io_bind_def io_pure_def split: sum.splits)
    have "c = Inr \<lparr>episodes = es, content_scenes_path = t\<rparr>"
      using assms(1) unfolding eq by (cases c) simp_all
    then show ?thesis using l c0 by blast
  qed
qed

lemma load_scenes_concat:
  assumes "list_all2
             (\<lambda>scene shard. scene_filename t dir scene = Inr (fst shard) \<and>
                fst (load_scenes world cfg dir [scene] \<lparr>episodes = [], content_scenes_path = t\<rparr> [])
                  = Inr \<lparr>episodes = snd shard, content_scenes_path = t\<rparr>)
             scenes shards"
  shows "fst (load_scenes world cfg dir scenes \<lparr>episodes = acc, content_scenes_path = t\<rparr> log)
           = Inr \<lparr>episodes = acc @ concat (map snd shards), content_scenes_path = t\<rparr>
         \<and> files_read (snd (load_scenes world cfg dir scenes
                \<lparr>episodes = acc, content_scenes_path = t\<rparr> log))
           = files_read log @ map fst shards"
  using assms
proof (induction scenes shards arbitrary: acc log rule: list_all2_induct)
  case Nil
  show ?case by (simp add: io_pure_def)
next
  case (Cons scene scenes shard shards)
  obtain doc where g: "gzip_open_read world (fst shard) log = (Inr doc, log @ [GzipRead (fst shard)])"
    and c: "fst (call_from_json world doc (scenes_dir cfg)
                  \<lparr>episodes = [], content_scenes_path = t\<rparr> [])
             = Inr \<lparr>episodes = snd shard, content_scenes_path = t\<rparr>"
    using load_scenes_one [of world cfg dir scene t "snd shard" "fst shard" log] Cons.hyps(1)
    by blast
  have step: "load_scenes world cfg dir (scene # scenes)
                \<lparr>episodes = acc, content_scenes_path = t\<rparr> log
      = load_scenes world cfg dir scenes
          \<lparr>episodes = acc @ snd shard, content_scenes_path = t\<rparr>
          (log @ [GzipRead (fst shard)] @ [JsonLoads doc])"
    using Cons.hyps(1) g call_from_json_acc [OF c, of acc "log @ [GzipRead (fst shard)]"]
    by (simp add: io_bind_def io_pure_def)
  show ?case
    unfolding step
    using Cons.IH [of "acc @ snd shard" "log @ [GzipRead (fst shard)] @ [JsonLoads doc]"]
    by (simp add: files_read_append)
qed

subsection \<open>The constructor and scene discovery\<close>

lemma init_combined:
  assumes "py_format (data_path cfg) [(''split'', split cfg)] = Inr file"
    and "path_exists world file"
    and "gzip_text world file = Some doc"
    and "fst (from_json world doc (scenes_dir cfg) new_dataset []) = (None, self1)"
    and "content_dir_of (content_scenes_path self1) (dirname file) = Inr cdir"
    and "path_exists world cdir"
  shows "init world (Some cfg) log =
           io_bind
             (if ALL_SCENES_MASK \<in> set (content_scenes cfg)
              then get_scenes_from_folder world (content_scenes_path self1) (dirname file)
              else io_pure (Inr (content_scenes cfg)))
             (\<lambda>scenes. load_scenes world cfg (dirname file) scenes self1)
             (log @ [GzipRead file, JsonLoads doc, PathExists cdir])"
proof -
  have g: "gzip_open_read world file log = (Inr doc, log @ [GzipRead file])"
    using assms(2,3) by (simp add: gzip_open_read_def path_exists_def)
  have "from_json world doc (scenes_dir cfg) new_dataset (log @ [GzipRead file])
          = ((None, self1), (log @ [GzipRead file]) @ [JsonLoads doc])"
    using assms(4) from_json_fst_log [of world doc "scenes_dir cfg" new_dataset "log @ [GzipRead file]"]
      from_json_log [of world doc "scenes_dir cfg" new_dataset "log @ [GzipRead file]"]
    by (metis prod.collapse)
  then have c: "call_from_json world doc (scenes_dir cfg) new_dataset (log @ [GzipRead file])
          = (Inr self1, log @ [GzipRead file, JsonLoads doc])"
    by (simp add: call_from_json_def)
  have e: "os_path_exists world cdir (log @ [GzipRead file, JsonLoads doc])
          = (Inr True, log @ [GzipRead file, JsonLoads doc, PathExists cdir])"
    using assms(6) by (simp add: os_path_exists_def)
  show ?thesis
    using assms(1,5) g c e by (simp add: init_def io_bind_def io_pure_def)
qed








subsection \<open>The example installation, evaluated\<close>

lemma demo_format: "py_format (data_path (demo_config scenes)) [(''split'', split (demo_config scenes))]
    = Inr ''d/t.json.gz''"
  by (simp add: demo_config_def) code_simp

lemma demo_file: "path_exists demo_world ''d/t.json.gz''"
  by code_simp

lemma demo_text: "gzip_text demo_world ''d/t.json.gz'' = Some ''combined''"
  by code_simp

lemma demo_parse:
  "fst (from_json demo_world ''combined'' (scenes_dir (demo_config scenes)) new_dataset [])
     = (None, demo_combined)"
  by (simp add: demo_config_def) code_simp

lemma demo_content_dir:
  "content_dir_of (content_scenes_path demo_combined) (dirname ''d/t.json.gz'') = Inr ''d/content/''"
  by code_simp

lemma demo_sharded: "path_exists demo_world ''d/content/''"
  by code_simp

lemma demo_discovery:
  "fst (get_scenes_from_folder demo_world (content_scenes_path demo_combined)
         (dirname ''d/t.json.gz'') []) = Inr [''A'', ''B'']"
  by code_simp

lemma demo_load_A:
  "scene_filename (content_scenes_path demo_combined) (dirname ''d/t.json.gz'') ''A''
     = Inr ''d/content/A.json.gz'' \<and>
   fst (load_scenes demo_world (demo_config scenes) (dirname ''d/t.json.gz'') [''A'']
          \<lparr>episodes = [], content_scenes_path = content_scenes_path demo_combined\<rparr> [])
     = Inr \<lparr>episodes = demo_shard_A, content_scenes_path = content_scenes_path demo_combined\<rparr>"
  by (simp add: demo_config_def) code_simp

lemma demo_load_B:
  "scene_filename (content_scenes_path demo_combined) (dirname ''d/t.json.gz'') ''B''
     = Inr ''d/content/B.json.gz'' \<and>
   fst (load_scenes demo_world (demo_config scenes) (dirname ''d/t.json.gz'') [''B'']
          \<lparr>episodes = [], content_scenes_path = content_scenes_path demo_combined\<rparr> [])
     = Inr \<lparr>episodes = demo_shard_B, content_scenes_path = content_scenes_path demo_combined\<rparr>"
  by (simp add: demo_config_def) code_simp

section \<open>The claims\<close>

text \<open>
  C1, as amended. A document that is not JSON makes \<^verbatim>\<open>from_json\<close> raise
  JSONDecodeError and leaves the dataset exactly as it was. A document whose episode
  list holds an object that cannot be built (a required field is missing) makes
  \<^verbatim>\<open>from_json\<close> raise that object's error; the episodes built from the objects
  before the first such object have been appended by then and stay appended, and the
  failing object and the ones after it are not appended.
\<close>

theorem from_json_failure:
  "(json_loads world s = None \<longrightarrow>
      from_json world s sd self log = ((Some JSONDecodeError, self), log @ [JsonLoads s]))
   \<and> (json_loads world s = Some (JObj kvs) \<longrightarrow> map_of kvs ''episodes'' = Some v \<longrightarrow>
        iter_json v = Inr (good @ bad # rest) \<longrightarrow>
        map_result (parse_episode sd) good = Inr new \<longrightarrow> parse_episode sd bad = Inl e \<longrightarrow>
      from_json world s sd self log =
        ((Some e, (declare_template kvs self)\<lparr>episodes := episodes self @ new\<rparr>),
         log @ [JsonLoads s]))"
proof (intro conjI impI)
  assume "json_loads world s = None"
  then show "from_json world s sd self log = ((Some JSONDecodeError, self), log @ [JsonLoads s])"
    by (simp add: from_json_def)
next
  assume a: "json_loads world s = Some (JObj kvs)" "map_of kvs ''episodes'' = Some v"
    "iter_json v = Inr (good @ bad # rest)"
    and g: "map_result (parse_episode sd) good = Inr new" and b: "parse_episode sd bad = Inl e"
  have "from_json_loop sd (good @ bad # rest) [] = (Some e, [] @ new)"
    using g b by (rule from_json_loop_fail)
  then show "from_json world s sd self log =
        ((Some e, (declare_template kvs self)\<lparr>episodes := episodes self @ new\<rparr>),
         log @ [JsonLoads s])"
    using from_json_object [OF a, of sd self log] by simp
qed

theorem from_json_failure_witness:
  "from_json demo_world ''not json'' None new_dataset [] =
     ((Some JSONDecodeError, new_dataset), [] @ [JsonLoads ''not json''])
   \<and> from_json demo_world ''broken'' (Some ''assets'') new_dataset [] =
     ((Some TypeError,
       (declare_template
          [(''episodes'',
            JArr ([demo_episode_json ''x1'' ''g/X.glb''] @ JObj [(''episode_id'', JStr ''x2'')]
                  # [demo_episode_json ''x3'' ''g/X.glb'']))]
          new_dataset)
       \<lparr>episodes := episodes new_dataset @ [demo_episode ''x1'' ''assets/g/X.glb'']\<rparr>),
      [] @ [JsonLoads ''broken''])"
proof -
  have a: "json_loads demo_world ''not json'' = None"
    by code_simp
  have b: "json_loads demo_world ''broken'' =
      Some (JObj [(''episodes'',
            JArr ([demo_episode_json ''x1'' ''g/X.glb''] @ JObj [(''episode_id'', JStr ''x2'')]
                  # [demo_episode_json ''x3'' ''g/X.glb'']))])"
    by code_simp
  have c: "map_of [(''episodes'',
            JArr ([demo_episode_json ''x1'' ''g/X.glb''] @ JObj [(''episode_id'', JStr ''x2'')]
                  # [demo_episode_json ''x3'' ''g/X.glb'']))] ''episodes''
      = Some (JArr ([demo_episode_json ''x1'' ''g/X.glb''] @ JObj [(''episode_id'', JStr ''x2'')]
                  # [demo_episode_json ''x3'' ''g/X.glb'']))"
    by simp
  have d: "iter_json (JArr ([demo_episode_json ''x1'' ''g/X.glb'']
                  @ JObj [(''episode_id'', JStr ''x2'')] # [demo_episode_json ''x3'' ''g/X.glb'']))
      = Inr ([demo_episode_json ''x1'' ''g/X.glb''] @ JObj [(''episode_id'', JStr ''x2'')]
                  # [demo_episode_json ''x3'' ''g/X.glb''])"
    by simp
  have e: "map_result (parse_episode (Some ''assets'')) [demo_episode_json ''x1'' ''g/X.glb'']
      = Inr [demo_episode ''x1'' ''assets/g/X.glb'']"
    by code_simp
  have f: "parse_episode (Some ''assets'') (JObj [(''episode_id'', JStr ''x2'')]) = Inl TypeError"
    by code_simp
  show ?thesis
    by (rule conjI
        [OF from_json_failure [THEN conjunct1, rule_format, OF a]
            from_json_failure [THEN conjunct2, rule_format, OF b c d e f]])
qed

theorem from_json_partial_append_counterexample:
  "from_json demo_world ''broken'' (Some ''assets'') new_dataset [] =
     ((Some TypeError, new_dataset\<lparr>episodes := [demo_episode ''x1'' ''assets/g/X.glb'']\<rparr>),
      [JsonLoads ''broken''])
   \<and> episodes (new_dataset\<lparr>episodes := [demo_episode ''x1'' ''assets/g/X.glb'']\<rparr>)
       \<noteq> episodes new_dataset"
  by code_simp

text \<open>
  C2, as amended. After a sequence of documents has been parsed into one dataset, the
  template is the one declared by the last document that declares one, and the
  template the dataset had before when none does: every declaring document replaces it.
\<close>

theorem from_json_seq_template:
  assumes "from_json_seq world sd docs self log = ((None, self'), log')"
  shows "content_scenes_path self' =
           last (content_scenes_path self # List.map_filter (declared_template world) docs)"
  using assms
proof (induction docs arbitrary: self log)
  case Nil
  then show ?case by (simp add: List.map_filter_simps)
next
  case (Cons d ds)
  obtain r self1 log1 where f: "from_json world d sd self log = ((r, self1), log1)"
    by (metis prod.collapse)
  show ?case
  proof (cases r)
    case None
    have t: "content_scenes_path self1 =
       (case declared_template world d of None \<Rightarrow> content_scenes_path self | Some t \<Rightarrow> t)"
      using f None from_json_template by blast
    have "from_json_seq world sd ds self1 log1 = ((None, self'), log')"
      using Cons.prems f None by simp
    then have "content_scenes_path self' =
           last (content_scenes_path self1 # List.map_filter (declared_template world) ds)"
      by (rule Cons.IH)
    then show ?thesis using t
      by (cases "declared_template world d") (simp_all add: List.map_filter_simps)
  next
    case (Some e)
    then show ?thesis using Cons.prems f by simp
  qed
qed

theorem from_json_seq_template_witness:
  "from_json_seq demo_world None [''template 2'', ''shard B'', ''template 1''] new_dataset [] =
     ((None, \<lparr>episodes = [demo_episode ''b1'' ''g/B.glb''],
              content_scenes_path = JStr ''{data_path}/one/{scene}.gz''\<rparr>),
      [JsonLoads ''template 2'', JsonLoads ''shard B'', JsonLoads ''template 1''])
   \<and> content_scenes_path
        \<lparr>episodes = [demo_episode ''b1'' ''g/B.glb''],
         content_scenes_path = JStr ''{data_path}/one/{scene}.gz''\<rparr> =
       last (content_scenes_path new_dataset
             # List.map_filter (declared_template demo_world)
                 [''template 2'', ''shard B'', ''template 1''])"
proof -
  have h: "from_json_seq demo_world None [''template 2'', ''shard B'', ''template 1''] new_dataset []
     = ((None, \<lparr>episodes = [demo_episode ''b1'' ''g/B.glb''],
              content_scenes_path = JStr ''{data_path}/one/{scene}.gz''\<rparr>),
      [JsonLoads ''template 2'', JsonLoads ''shard B'', JsonLoads ''template 1''])"
    by code_simp
  show ?thesis
    by (rule conjI [OF h from_json_seq_template [OF h]])
qed

theorem first_template_counterexample:
  "fst (from_json_seq demo_world None [''template 1'', ''template 2''] new_dataset []) =
     (None, \<lparr>episodes = [], content_scenes_path = JStr ''{data_path}/two/{scene}.gz''\<rparr>)
   \<and> declared_template demo_world ''template 1'' = Some (JStr ''{data_path}/one/{scene}.gz'')
   \<and> declared_template demo_world ''template 2'' = Some (JStr ''{data_path}/two/{scene}.gz'')"
  by code_simp

text \<open>
  C8. The episodes that a call of \<^verbatim>\<open>from_json\<close> has appended, whether it returns or
  raises at a later object, are built one per episode object in the order of the
  document, and the \<open>scene_id\<close> of each is the one the specification words: with an
  asset root, the root joined with the document's \<^verbatim>\<open>scene_id\<close> from which the prefix
  \<^verbatim>\<open>data/scene_datasets/\<close> has been stripped exactly when it begins with that prefix;
  with no asset root, the document's \<^verbatim>\<open>scene_id\<close> as it is. A call that returns
  has appended one episode for every object.
\<close>

theorem from_json_scene_id:
  assumes "from_json world json_str sd self log = ((r, self'), log')"
    and "json_loads world json_str = Some (JObj kvs)"
    and "map_of kvs ''episodes'' = Some v"
    and "iter_json v = Inr items"
  shows "take (length (episodes self)) (episodes self') = episodes self
         \<and> map (\<lambda>ep. Some (scene_id ep)) (drop (length (episodes self)) (episodes self'))
             = map (spec_scene_id sd)
                 (take (length (episodes self') - length (episodes self)) items)
         \<and> (r = None \<longrightarrow> length (episodes self') = length (episodes self) + length items)"
proof -
  have eq: "from_json world json_str sd self log =
     ((fst (from_json_loop sd items []),
       (declare_template kvs self)\<lparr>episodes := episodes self @ snd (from_json_loop sd items [])\<rparr>),
      log @ [JsonLoads json_str])"
    using assms(2-4) by (rule from_json_object)
  have r: "fst (from_json_loop sd items []) = r"
    and s: "episodes self' = episodes self @ snd (from_json_loop sd items [])"
    using eq assms(1) by auto
  have "from_json_loop sd items [] = (r, snd (from_json_loop sd items []))"
    using r by (metis prod.collapse)
  then obtain new where n: "snd (from_json_loop sd items []) = [] @ new"
    and all: "r = None \<longrightarrow> length new = length items"
    and m: "map_result (parse_episode sd) (take (length new) items) = Inr new"
    using from_json_loop_prefix by blast
  have "list_all2 (\<lambda>j ep. parse_episode sd j = Inr ep) (take (length new) items) new"
    using m by (rule map_result_list_all2)
  then have "list_all2 (\<lambda>j ep. spec_scene_id sd j = Some (scene_id ep))
               (take (length new) items) new"
    by (rule list_all2_mono) (rule parse_episode_spec_scene_id)
  then have "map (spec_scene_id sd) (take (length new) items) = map (\<lambda>ep. Some (scene_id ep)) new"
    by (rule list_all2_map_eq)
  then show ?thesis using s n all by simp
qed

theorem from_json_scene_id_witness:
  "take (length (episodes new_dataset)) (episodes (new_dataset\<lparr>episodes := demo_shard_A\<rparr>))
     = episodes new_dataset
   \<and> map (\<lambda>ep. Some (scene_id ep))
        (drop (length (episodes new_dataset)) (episodes (new_dataset\<lparr>episodes := demo_shard_A\<rparr>)))
     = map (spec_scene_id (Some ''assets''))
         (take (length (episodes (new_dataset\<lparr>episodes := demo_shard_A\<rparr>))
                - length (episodes new_dataset))
            [demo_episode_json ''a1'' ''data/scene_datasets/g/A.glb'',
             demo_episode_json ''a2'' ''g/A.glb''])
   \<and> length (episodes (new_dataset\<lparr>episodes := demo_shard_A\<rparr>))
     = length (episodes new_dataset)
       + length [demo_episode_json ''a1'' ''data/scene_datasets/g/A.glb'',
                 demo_episode_json ''a2'' ''g/A.glb'']"
proof -
  have a: "from_json demo_world ''shard A'' (Some ''assets'') new_dataset [] =
      ((None, new_dataset\<lparr>episodes := demo_shard_A\<rparr>), [JsonLoads ''shard A''])"
    by code_simp
  have b: "json_loads demo_world ''shard A'' =
      Some (JObj [(''episodes'',
        JArr [demo_episode_json ''a1'' ''data/scene_datasets/g/A.glb'',
              demo_episode_json ''a2'' ''g/A.glb''])])"
    by code_simp
  have c: "map_of [(''episodes'',
        JArr [demo_episode_json ''a1'' ''data/scene_datasets/g/A.glb'',
              demo_episode_json ''a2'' ''g/A.glb''])] ''episodes''
      = Some (JArr [demo_episode_json ''a1'' ''data/scene_datasets/g/A.glb'',
              demo_episode_json ''a2'' ''g/A.glb''])"
    by simp
  have d: "iter_json (JArr [demo_episode_json ''a1'' ''data/scene_datasets/g/A.glb'',
              demo_episode_json ''a2'' ''g/A.glb''])
      = Inr [demo_episode_json ''a1'' ''data/scene_datasets/g/A.glb'',
              demo_episode_json ''a2'' ''g/A.glb'']"
    by simp
  show ?thesis
    using from_json_scene_id [OF a b c d] by blast
qed

text \<open>
  C9. For the \<^verbatim>\<open>scene_id\<close> \<^verbatim>\<open>data/scene_datasets/gibson/Adrian.glb\<close> and the asset
  root \<^verbatim>\<open>data/scene_datasets\<close> the rewrite returns the \<^verbatim>\<open>scene_id\<close> unchanged, and so
  does the parse of an episode object that carries it.
\<close>

theorem rewrite_round_trip:
  "rewrite_scene_id (Some ''data/scene_datasets'') (JStr ''data/scene_datasets/gibson/Adrian.glb'')
     = Inr (JStr ''data/scene_datasets/gibson/Adrian.glb'')
   \<and> parse_episode (Some ''data/scene_datasets'')
        (demo_episode_json ''0'' ''data/scene_datasets/gibson/Adrian.glb'')
     = Inr (demo_episode ''0'' ''data/scene_datasets/gibson/Adrian.glb'')"
  by code_simp

text \<open>
  C10. The constructor called with no configuration returns a dataset with no episodes,
  raises nothing and adds nothing to the log: it touches no file.
\<close>

theorem init_no_config:
  "init world None log = (Inr new_dataset, log) \<and> episodes new_dataset = []"
  by (simp add: init_def io_pure_def new_dataset_def)




text \<open>
  C4, as amended. In a sharded layout, with a requested scene list that does not hold
  the sentinel, the constructor returns the episodes of the combined file followed by
  the episodes of the requested scenes' shards, in the order of the request; the files
  read are the combined file and then exactly the requested scenes' shard files, so
  that no episode comes from a shard that was not requested.
\<close>

theorem init_requested_scenes:
  assumes "py_format (data_path cfg) [(''split'', split cfg)] = Inr file"
    and "path_exists world file"
    and "gzip_text world file = Some doc"
    and "fst (from_json world doc (scenes_dir cfg) new_dataset []) = (None, self1)"
    and "content_dir_of (content_scenes_path self1) (dirname file) = Inr cdir"
    and "path_exists world cdir"
    and "ALL_SCENES_MASK \<notin> set (content_scenes cfg)"
    and "list_all2
           (\<lambda>scene shard.
              scene_filename (content_scenes_path self1) (dirname file) scene = Inr (fst shard) \<and>
              fst (load_scenes world cfg (dirname file) [scene]
                     \<lparr>episodes = [], content_scenes_path = content_scenes_path self1\<rparr> [])
                = Inr \<lparr>episodes = snd shard, content_scenes_path = content_scenes_path self1\<rparr>)
           (content_scenes cfg) shards"
  shows "fst (init world (Some cfg) log) =
           Inr \<lparr>episodes = episodes self1 @ concat (map snd shards),
                content_scenes_path = content_scenes_path self1\<rparr>
         \<and> files_read (snd (init world (Some cfg) log)) = files_read log @ file # map fst shards"
proof -
  have e: "\<lparr>episodes = episodes self1, content_scenes_path = content_scenes_path self1\<rparr> = self1"
    by simp
  have i: "init world (Some cfg) log =
      load_scenes world cfg (dirname file) (content_scenes cfg)
        \<lparr>episodes = episodes self1, content_scenes_path = content_scenes_path self1\<rparr>
        (log @ [GzipRead file, JsonLoads doc, PathExists cdir])"
    using init_combined [OF assms(1-6), of log] assms(7)
    by (simp add: io_bind_def io_pure_def e)
  show ?thesis
    unfolding i
    using load_scenes_concat [OF assms(8), of "episodes self1"
        "log @ [GzipRead file, JsonLoads doc, PathExists cdir]"]
    by (simp add: files_read_append)
qed

theorem init_requested_scenes_witness:
  "fst (init demo_world (Some (demo_config [''B'', ''A''])) []) =
     Inr \<lparr>episodes = episodes demo_combined @ demo_shard_B @ demo_shard_A,
          content_scenes_path = demo_template\<rparr>
   \<and> files_read (snd (init demo_world (Some (demo_config [''B'', ''A''])) []))
       = [''d/t.json.gz'', ''d/content/B.json.gz'', ''d/content/A.json.gz'']"
proof -
  have no: "ALL_SCENES_MASK \<notin> set (content_scenes (demo_config [''B'', ''A'']))"
    by (simp add: demo_config_def ALL_SCENES_MASK_def)
  have shards: "list_all2
           (\<lambda>scene shard.
              scene_filename (content_scenes_path demo_combined) (dirname ''d/t.json.gz'') scene
                = Inr (fst shard) \<and>
              fst (load_scenes demo_world (demo_config [''B'', ''A'']) (dirname ''d/t.json.gz'')
                     [scene]
                     \<lparr>episodes = [], content_scenes_path = content_scenes_path demo_combined\<rparr> [])
                = Inr \<lparr>episodes = snd shard, content_scenes_path = content_scenes_path demo_combined\<rparr>)
           (content_scenes (demo_config [''B'', ''A'']))
           [(''d/content/B.json.gz'', demo_shard_B), (''d/content/A.json.gz'', demo_shard_A)]"
    using demo_load_A [of "[''B'', ''A'']"] demo_load_B [of "[''B'', ''A'']"]
    by (simp add: demo_config_def del: load_scenes.simps)
  show ?thesis
    using init_requested_scenes [OF demo_format demo_file demo_text demo_parse demo_content_dir
        demo_sharded no shards, of "[]"]
    by (simp add: demo_combined_def)
qed

theorem init_requested_scenes_counterexample:
  "fst (init demo_world (Some (demo_config [''B''])) []) =
     Inr \<lparr>episodes = demo_episode ''c1'' ''assets/g/C.glb'' # demo_shard_B,
          content_scenes_path = demo_template\<rparr>
   \<and> demo_episode ''c1'' ''assets/g/C.glb'' \<notin> set demo_shard_B"
  by code_simp

text \<open>
  C5, as amended. In a sharded layout, with an empty requested scene list, the
  constructor reads the combined file and no shard file, raises nothing, and returns
  the dataset that parsing the combined file gives: its episodes are the combined
  file's, so it is empty when the combined file holds no episode.
\<close>

theorem init_empty_request:
  assumes "py_format (data_path cfg) [(''split'', split cfg)] = Inr file"
    and "path_exists world file"
    and "gzip_text world file = Some doc"
    and "fst (from_json world doc (scenes_dir cfg) new_dataset []) = (None, self1)"
    and "content_dir_of (content_scenes_path self1) (dirname file) = Inr cdir"
    and "path_exists world cdir"
    and "content_scenes cfg = []"
  shows "init world (Some cfg) log =
           (Inr self1, log @ [GzipRead file, JsonLoads doc, PathExists cdir])"
  using init_combined [OF assms(1-6), of log] assms(7)
  by (simp add: ALL_SCENES_MASK_def io_bind_def io_pure_def)

theorem init_empty_request_witness:
  "init demo_world (Some (demo_config [])) [] =
     (Inr demo_combined,
      [] @ [GzipRead ''d/t.json.gz'', JsonLoads ''combined'', PathExists ''d/content/''])"
proof -
  have none: "content_scenes (demo_config []) = []"
    by (simp add: demo_config_def)
  show ?thesis
    by (rule init_empty_request [OF demo_format demo_file demo_text demo_parse demo_content_dir
          demo_sharded none])
qed

theorem init_empty_request_counterexample:
  "fst (init demo_world (Some (demo_config [])) []) =
     Inr \<lparr>episodes = [demo_episode ''c1'' ''assets/g/C.glb''],
          content_scenes_path = demo_template\<rparr>
   \<and> [demo_episode ''c1'' ''assets/g/C.glb''] \<noteq> []"
  by code_simp

text \<open>
  C6, as amended. When the directory of the resolved combined file does not exist (and
  so, on a file system, neither does the file), \<^verbatim>\<open>get_scenes_to_load\<close> raises
  FileNotFoundError at its check of the paths, and the constructor raises at
  \<^verbatim>\<open>gzip.open\<close> the exception with which the operating system refuses the path:
  FileNotFoundError when a component of the path is missing, and another one, such as
  NotADirectoryError, otherwise. Both raise before any document is decoded.
\<close>

theorem missing_directory:
  assumes "py_format (data_path cfg) [(''split'', split cfg)] = Inr file"
    and "\<not> path_exists world (dirname file)"
    and "path_exists world file \<longrightarrow> path_exists world (dirname file)"
  shows "get_scenes_to_load world cfg log = (Inl FileNotFoundError, log @ [PathExists file])
         \<and> (\<exists>e. lookup_error world file = Some e \<and>
                init world (Some cfg) log = (Inl e, log @ [GzipRead file]))"
proof -
  have n: "\<not> path_exists world file" using assms(2,3) by blast
  then obtain e where e: "lookup_error world file = Some e"
    by (auto simp: path_exists_def)
  have a: "init world (Some cfg) log = (Inl e, log @ [GzipRead file])"
    using assms(1) e by (simp add: init_def io_bind_def io_pure_def gzip_open_read_def)
  have "check_config_paths_exist world cfg log = (Inr False, log @ [PathExists file])"
    using assms(1) n
    by (simp add: check_config_paths_exist_def io_bind_def io_pure_def os_path_exists_def)
  then have b: "get_scenes_to_load world cfg log = (Inl FileNotFoundError, log @ [PathExists file])"
    using assms(1) by (simp add: get_scenes_to_load_def io_bind_def io_pure_def)
  show ?thesis using a b e by simp
qed

theorem missing_directory_witness:
  "get_scenes_to_load demo_world demo_missing_config [] =
     (Inl FileNotFoundError, [] @ [PathExists ''missing/t.json.gz''])
   \<and> init demo_world (Some demo_missing_config) [] =
     (Inl FileNotFoundError, [] @ [GzipRead ''missing/t.json.gz''])"
proof -
  have a: "py_format (data_path demo_missing_config) [(''split'', split demo_missing_config)]
      = Inr ''missing/t.json.gz''"
    by code_simp
  have b: "\<not> path_exists demo_world (dirname ''missing/t.json.gz'')"
    by code_simp
  have c: "path_exists demo_world ''missing/t.json.gz''
      \<longrightarrow> path_exists demo_world (dirname ''missing/t.json.gz'')"
    by code_simp
  have d: "lookup_error demo_world ''missing/t.json.gz'' = Some FileNotFoundError"
    by code_simp
  show ?thesis
    using missing_directory [OF a b c, of "[]"] d by auto
qed

theorem missing_directory_counterexample:
  "py_format (data_path demo_below_file_config) [(''split'', split demo_below_file_config)]
     = Inr ''d/t.json.gz/sub/t.json.gz''
   \<and> path_exists demo_world (dirname ''d/t.json.gz/sub/t.json.gz'') = False
   \<and> init demo_world (Some demo_below_file_config) [] =
       (Inl NotADirectoryError, [GzipRead ''d/t.json.gz/sub/t.json.gz''])"
  by code_simp

text \<open>
  C7, at the input where the source departs from it. For a template that ends with
  \<^verbatim>\<open>{scene}\<close> the suffix is empty, \<^verbatim>\<open>filename[: -len(scene_dataset_ext)]\<close> is
  \<^verbatim>\<open>filename[:0]\<close>, and every entry of the directory yields the empty scene
  identifier: the entries \<open>B\<close> and \<open>A\<close> give two empty strings, not \<open>A\<close> and \<open>B\<close>.
  (\<open>get_scenes_from_folder_nonempty_suffix\<close> above is the claim for a suffix that is
  not empty.)
\<close>

theorem get_scenes_from_folder_empty_suffix:
  "get_scenes_from_folder demo_world (JStr ''{data_path}/content/{scene}'') ''e'' [] =
     (Inr [[], []], [PathExists ''e/content/'', ListDir ''e/content/''])
   \<and> listdir demo_world ''e/content/'' = Some [''B'', ''A'']"
  by code_simp

end
